theory Spec2Isabelle
  imports Complex_Main
begin

section \<open>The E-learn store: users, courses, enrollments\<close>

text \<open>
  The program (\<^verbatim>\<open>main.py\<close>) keeps three SQLite tables and reaches them through the
  methods of \<^verbatim>\<open>DatabaseHandler\<close> and through a few SQL statements issued by the
  frames of the Tk interface. Every method opens a connection, runs its statements,
  commits and closes, so a call is a function from the contents of the database file to
  the new contents and the returned value.

  Conventions of the embedding:
  \<^item> a table is the list of its rows, in insertion order; a row is a record whose fields
    are named \<open>table_column\<close>;
  \<^item> Python's \<^verbatim>\<open>str\<close> is \<open>string\<close>; one \<open>char\<close> stands for one code point
    (so the code points below 256 are covered), and \<^verbatim>\<open>len\<close> is \<open>length\<close>;
  \<^item> SQLite INTEGER columns and Python ints are \<open>int\<close>; the rowid ceiling of SQLite
    (\<open>2^63 - 1\<close>) and failures of the file system are not modelled;
  \<^item> the column \<^verbatim>\<open>price REAL\<close> is \<open>real\<close>;
  \<^item> an exception that the source does not catch is a value: \<open>Inl e\<close> of a sum, or the
    outcome \<open>Raised e\<close> of an event handler.
\<close>

subsection \<open>Python string methods used by the handlers\<close>

text \<open>\<^verbatim>\<open>str.isspace\<close> on one code point below 256: TAB, LF, VT, FF, CR, the separators
  FS, GS, RS, US, the space, NEL and the no-break space.\<close>

definition isspace :: "char \<Rightarrow> bool" where
  "isspace c = (c \<in> set [CHR 0x09, CHR 0x0A, CHR 0x0B, CHR 0x0C, CHR 0x0D,
                          CHR 0x1C, CHR 0x1D, CHR 0x1E, CHR 0x1F, CHR 0x20,
                          CHR 0x85, CHR 0xA0])"

text \<open>\<^verbatim>\<open>s.strip()\<close>: leading and trailing whitespace removed.\<close>

definition strip :: "string \<Rightarrow> string" where
  "strip s = rev (dropWhile isspace (rev (dropWhile isspace s)))"

text \<open>\<^verbatim>\<open>str.isdigit\<close> on one code point below 256 holds for the ASCII digits and for the
  superscripts one, two and three; on a string it asks for at least one character.\<close>

definition ascii_digit :: "char \<Rightarrow> bool" where
  "ascii_digit c = (c \<in> set ''0123456789'')"

definition isdigit_char :: "char \<Rightarrow> bool" where
  "isdigit_char c = (ascii_digit c \<or> c \<in> set [CHR 0xB2, CHR 0xB3, CHR 0xB9])"

definition isdigit :: "string \<Rightarrow> bool" where
  "isdigit s = (s \<noteq> [] \<and> list_all isdigit_char s)"

datatype py_exception = IntegrityError | TypeError | ValueError

text \<open>\<^verbatim>\<open>int(s)\<close> for a string that passed \<^verbatim>\<open>isdigit\<close>: the decimal value when every
  character is an ASCII digit, \<^verbatim>\<open>ValueError\<close> (here \<open>None\<close>) otherwise, and also
  when the string is longer than the 4300 digits that current interpreters accept.\<close>

definition digit_value :: "char \<Rightarrow> int" where
  "digit_value c = int (of_char c) - 48"

definition int_of_str :: "string \<Rightarrow> int option" where
  "int_of_str s =
     (if s \<noteq> [] \<and> list_all ascii_digit s \<and> length s \<le> 4300
      then Some (fold (\<lambda>c n. 10 * n + digit_value c) s 0)
      else None)"

subsection \<open>The bcrypt library\<close>

text \<open>
  \<^verbatim>\<open>bcrypt\<close> is a library, not code of the program. Its key derivation (the expensive
  Blowfish schedule) is a parameter \<open>f\<close> of every function that hashes or checks a
  password; what the library builds around it is modelled as it is documented:
  \<^verbatim>\<open>hashpw(password, salt)\<close> returns a digest that carries the salt in front of the
  derived key, and \<^verbatim>\<open>checkpw(password, hashed)\<close> hashes the password again with the
  salt found in \<^verbatim>\<open>hashed\<close> and compares the two digests. The value returned by
  \<^verbatim>\<open>gensalt()\<close> is an argument \<open>s\<close> of the function that draws it.
  \<^verbatim>\<open>password.encode()\<close> is injective and left out.
\<close>

type_synonym salt = string

type_synonym kdf = "salt \<Rightarrow> string \<Rightarrow> string"

datatype digest = Digest (digest_salt: salt) (digest_key: string)

definition hashpw :: "kdf \<Rightarrow> string \<Rightarrow> salt \<Rightarrow> digest" where
  "hashpw f password s = Digest s (f s password)"

definition checkpw :: "kdf \<Rightarrow> string \<Rightarrow> digest \<Rightarrow> bool" where
  "checkpw f password hashed = (hashpw f password (digest_salt hashed) = hashed)"

text \<open>A key derivation to run the model on concrete inputs.\<close>

definition example_kdf :: kdf where
  "example_kdf s password = s @ password"


subsection \<open>Tables\<close>

record user_row =
  users_id :: int
  users_username :: string
  users_password :: digest
  users_role :: string

record course_row =
  courses_id :: int
  courses_title :: string
  courses_description :: string
  courses_instructor_id :: int
  courses_price :: real

record enrollment_row =
  enrollments_id :: int
  enrollments_student_id :: int
  enrollments_course_id :: int
  enrollments_progress :: int

text \<open>The file: the three tables and, for each, the largest rowid ever given out
  (the table \<^verbatim>\<open>sqlite_sequence\<close> that \<^verbatim>\<open>AUTOINCREMENT\<close> maintains).\<close>

record database =
  users :: "user_row list"
  courses :: "course_row list"
  enrollments :: "enrollment_row list"
  users_seq :: int
  courses_seq :: int
  enrollments_seq :: int

text \<open>The file before the first start: \<^verbatim>\<open>CREATE TABLE IF NOT EXISTS\<close> makes the
  three tables, empty.\<close>

definition empty_database :: database where
  "empty_database =
     \<lparr>users = [], courses = [], enrollments = [],
      users_seq = 0, courses_seq = 0, enrollments_seq = 0\<rparr>"

text \<open>\<^verbatim>\<open>INTEGER PRIMARY KEY AUTOINCREMENT\<close>: one more than the largest rowid that the
  table holds or has ever held.\<close>

definition next_rowid :: "int \<Rightarrow> int list \<Rightarrow> int" where
  "next_rowid seq ids = fold max ids seq + 1"

text \<open>The schema's constraints, which every stored file satisfies: primary keys and
  the two \<^verbatim>\<open>UNIQUE\<close> columns are free of duplicates, and a role passes the
  \<^verbatim>\<open>CHECK\<close>.\<close>

definition roles :: "string list" where
  "roles = [''Student'', ''Instructor'', ''Admin'']"

definition schema_ok :: "database \<Rightarrow> bool" where
  "schema_ok db =
     (distinct (map users_id (users db)) \<and>
      distinct (map users_username (users db)) \<and>
      list_all (\<lambda>u. users_role u \<in> set roles) (users db) \<and>
      distinct (map courses_id (courses db)) \<and>
      distinct (map courses_title (courses db)) \<and>
      distinct (map enrollments_id (enrollments db)))"

subsection \<open>SQL statements\<close>

text \<open>\<^verbatim>\<open>INSERT INTO users (username, password, role) VALUES (?, ?, ?)\<close>. \<open>None\<close> is
  \<^verbatim>\<open>sqlite3.IntegrityError\<close>: the username is taken (\<^verbatim>\<open>UNIQUE\<close>) or the role fails
  the \<^verbatim>\<open>CHECK\<close>; the statement then changes nothing.\<close>

definition insert_users :: "database \<Rightarrow> string \<Rightarrow> digest \<Rightarrow> string \<Rightarrow> database option" where
  "insert_users db username password role =
     (if username \<in> set (map users_username (users db)) then None
      else if role \<notin> set roles then None
      else
        let i = next_rowid (users_seq db) (map users_id (users db)) in
        Some (db\<lparr>users := users db @
                     [\<lparr>users_id = i, users_username = username,
                       users_password = password, users_role = role\<rparr>],
                 users_seq := i\<rparr>))"

text \<open>\<^verbatim>\<open>INSERT INTO courses (title, description, instructor_id, price) VALUES (?, ?, ?, ?)\<close>:
  the title is \<^verbatim>\<open>UNIQUE\<close>. The foreign key to \<^verbatim>\<open>users\<close> is declared, but SQLite
  enforces foreign keys only after \<^verbatim>\<open>PRAGMA foreign_keys = ON\<close>, which the program
  never issues.\<close>

definition insert_courses ::
  "database \<Rightarrow> string \<Rightarrow> string \<Rightarrow> int \<Rightarrow> real \<Rightarrow> database option" where
  "insert_courses db title description instructor_id price =
     (if title \<in> set (map courses_title (courses db)) then None
      else
        let i = next_rowid (courses_seq db) (map courses_id (courses db)) in
        Some (db\<lparr>courses := courses db @
                     [\<lparr>courses_id = i, courses_title = title,
                       courses_description = description,
                       courses_instructor_id = instructor_id,
                       courses_price = price\<rparr>],
                 courses_seq := i\<rparr>))"

text \<open>\<^verbatim>\<open>INSERT INTO enrollments (student_id, course_id) VALUES (?, ?)\<close>. The table
  declares no \<^verbatim>\<open>UNIQUE\<close>, \<^verbatim>\<open>NOT NULL\<close> or \<^verbatim>\<open>CHECK\<close> constraint and its foreign
  keys are not enforced, so the statement never raises \<^verbatim>\<open>IntegrityError\<close>;
  \<^verbatim>\<open>progress\<close> takes its default 0.\<close>

definition insert_enrollments :: "database \<Rightarrow> int \<Rightarrow> int \<Rightarrow> database option" where
  "insert_enrollments db student_id course_id =
     (let i = next_rowid (enrollments_seq db) (map enrollments_id (enrollments db)) in
      Some (db\<lparr>enrollments := enrollments db @
                   [\<lparr>enrollments_id = i, enrollments_student_id = student_id,
                     enrollments_course_id = course_id, enrollments_progress = 0\<rparr>],
               enrollments_seq := i\<rparr>))"

text \<open>\<^verbatim>\<open>UPDATE enrollments SET progress = ? WHERE id = ?\<close>.\<close>

definition update_enrollments_by_id :: "database \<Rightarrow> int \<Rightarrow> int \<Rightarrow> database" where
  "update_enrollments_by_id db progress enrollment_id =
     db\<lparr>enrollments :=
          map (\<lambda>e. if enrollments_id e = enrollment_id
                   then e\<lparr>enrollments_progress := progress\<rparr> else e)
              (enrollments db)\<rparr>"

subsection \<open>DatabaseHandler\<close>

text \<open>\<^verbatim>\<open>setup_database\<close>: after the tables exist, a default administrator is inserted
  when no row has the role Admin. The insert is not inside a \<^verbatim>\<open>try\<close>, so an
  \<^verbatim>\<open>IntegrityError\<close> leaves the method.\<close>

definition setup_database :: "kdf \<Rightarrow> salt \<Rightarrow> database \<Rightarrow> py_exception + database" where
  "setup_database f s db =
     (case find (\<lambda>u. users_role u = ''Admin'') (users db) of
        None \<Rightarrow>
          (let default_admin_password = hashpw f ''admin123'' s in
           case insert_users db ''admin'' default_admin_password ''Admin'' of
             None \<Rightarrow> Inl IntegrityError
           | Some db' \<Rightarrow> Inr db')
      | Some _ \<Rightarrow> Inr db)"

definition add_user ::
  "kdf \<Rightarrow> salt \<Rightarrow> database \<Rightarrow> string \<Rightarrow> string \<Rightarrow> string \<Rightarrow> bool \<times> database" where
  "add_user f s db username password role =
     (let hashed = hashpw f password s in
      case insert_users db username hashed role of
        Some db' \<Rightarrow> (True, db')
      | None \<Rightarrow> (False, db))"

text \<open>\<^verbatim>\<open>SELECT * FROM users WHERE username = ?\<close> and \<^verbatim>\<open>fetchone()\<close>.\<close>

definition get_user :: "database \<Rightarrow> string \<Rightarrow> user_row option" where
  "get_user db username = find (\<lambda>u. users_username u = username) (users db)"

definition get_all_users :: "database \<Rightarrow> (int \<times> string \<times> string) list" where
  "get_all_users db = map (\<lambda>u. (users_id u, users_username u, users_role u)) (users db)"

definition delete_user :: "database \<Rightarrow> int \<Rightarrow> database" where
  "delete_user db user_id = db\<lparr>users := filter (\<lambda>u. users_id u \<noteq> user_id) (users db)\<rparr>"

definition add_course ::
  "database \<Rightarrow> string \<Rightarrow> string \<Rightarrow> int \<Rightarrow> real \<Rightarrow> bool \<times> database" where
  "add_course db title description instructor_id price =
     (case insert_courses db title description instructor_id price of
        Some db' \<Rightarrow> (True, db')
      | None \<Rightarrow> (False, db))"

definition delete_course :: "database \<Rightarrow> int \<Rightarrow> database" where
  "delete_course db course_id =
     db\<lparr>courses := filter (\<lambda>c. courses_id c \<noteq> course_id) (courses db)\<rparr>"

definition enroll_student :: "database \<Rightarrow> int \<Rightarrow> int \<Rightarrow> bool \<times> database" where
  "enroll_student db student_id course_id =
     (case insert_enrollments db student_id course_id of
        Some db' \<Rightarrow> (True, db')
      | None \<Rightarrow> (False, db))"

text \<open>\<^verbatim>\<open>UPDATE enrollments SET progress = ? WHERE student_id = ? AND course_id = ?\<close>;
  the method returns nothing and does not look at the number of rows changed.\<close>

definition update_progress :: "database \<Rightarrow> int \<Rightarrow> int \<Rightarrow> int \<Rightarrow> database" where
  "update_progress db student_id course_id progress =
     db\<lparr>enrollments :=
          map (\<lambda>e. if enrollments_student_id e = student_id \<and>
                      enrollments_course_id e = course_id
                   then e\<lparr>enrollments_progress := progress\<rparr> else e)
              (enrollments db)\<rparr>"

subsection \<open>The session and the event handlers\<close>

text \<open>\<^verbatim>\<open>controller.current_user\<close>: the dictionary with the keys \<^verbatim>\<open>id\<close>,
  \<^verbatim>\<open>username\<close> and \<^verbatim>\<open>role\<close> that a successful login stores.\<close>

record session =
  session_id :: int
  session_username :: string
  session_role :: string

text \<open>What a handler tells the user: one constructor for each message box of the
  handlers below, \<open>Cancelled\<close> for a confirmation answered with no, and \<open>Raised e\<close>
  for an exception that leaves the handler.\<close>

datatype outcome =
    Fill_All_Fields
  | Invalid_Progress
  | Selection_Error
  | Login_Successful
  | Login_Failed
  | Cannot_Delete_Own_Account
  | Only_Students_Can_Be_Promoted
  | No_Students_Enrolled
  | Current_Password_Incorrect
  | New_Password_Too_Short
  | New_Passwords_Do_Not_Match
  | Username_Too_Short
  | Password_Too_Short
  | Passwords_Do_Not_Match
  | Registration_Successful
  | Registration_Failed
  | Success
  | Cancelled
  | Raised py_exception

text \<open>The core of \<^verbatim>\<open>LoginFrame.login\<close>: the user is looked up by name and the
  password is checked against the stored digest; the identity returned is the one the
  handler stores as \<^verbatim>\<open>current_user\<close>.\<close>

definition authenticate :: "kdf \<Rightarrow> database \<Rightarrow> string \<Rightarrow> string \<Rightarrow> session option" where
  "authenticate f db username password =
     (case get_user db username of
        None \<Rightarrow> None
      | Some user \<Rightarrow>
          if checkpw f password (users_password user)
          then Some \<lparr>session_id = users_id user,
                     session_username = users_username user,
                     session_role = users_role user\<rparr>
          else None)"

text \<open>\<^verbatim>\<open>LoginFrame.login\<close> on the texts of the two entries; the second component is
  \<^verbatim>\<open>current_user\<close> afterwards.\<close>

definition login ::
  "kdf \<Rightarrow> database \<Rightarrow> session option \<Rightarrow> string \<Rightarrow> string \<Rightarrow> outcome \<times> session option" where
  "login f db current_user username_entry password_entry =
     (let username = strip username_entry; password = strip password_entry in
      if username = [] \<or> password = [] then (Fill_All_Fields, current_user)
      else
        case authenticate f db username password of
          Some user \<Rightarrow> (Login_Successful, Some user)
        | None \<Rightarrow> (Login_Failed, current_user))"

text \<open>\<^verbatim>\<open>RegisterFrame.register\<close> on the texts of the three entries and the value of
  the role box, a read-only combobox that offers \<open>Student\<close> and \<open>Instructor\<close>.\<close>

definition register ::
  "kdf \<Rightarrow> salt \<Rightarrow> database \<Rightarrow> string \<Rightarrow> string \<Rightarrow> string \<Rightarrow> string \<Rightarrow> outcome \<times> database" where
  "register f s db username_entry password_entry confirm_entry role_combo =
     (let username = strip username_entry;
          password = strip password_entry;
          confirm = strip confirm_entry;
          role = strip role_combo in
      if username = [] \<or> password = [] \<or> confirm = [] then (Fill_All_Fields, db)
      else if length username < 4 then (Username_Too_Short, db)
      else if length password < 6 then (Password_Too_Short, db)
      else if password \<noteq> confirm then (Passwords_Do_Not_Match, db)
      else
        case add_user f s db username password role of
          (success, db') \<Rightarrow>
            if success then (Registration_Successful, db')
            else (Registration_Failed, db'))"

text \<open>\<^verbatim>\<open>AdminDashboard.delete_user\<close>. \<open>selected\<close> is the row of the user list that has
  the focus, with the values (id, username, role) it was loaded with; \<open>confirm\<close> is the
  answer to the confirmation dialog.\<close>

definition AdminDashboard_delete_user ::
  "database \<Rightarrow> session \<Rightarrow> (int \<times> string \<times> string) option \<Rightarrow> bool \<Rightarrow> outcome \<times> database" where
  "AdminDashboard_delete_user db current_user selected confirm =
     (case selected of
        None \<Rightarrow> (Selection_Error, db)
      | Some (user_id, username, role) \<Rightarrow>
          if username = session_username current_user then (Cannot_Delete_Own_Account, db)
          else if confirm then (Success, delete_user db user_id)
          else (Cancelled, db))"

text \<open>\<^verbatim>\<open>AdminDashboard.promote_user\<close>, with its
  \<^verbatim>\<open>UPDATE users SET role = 'Instructor' WHERE id = ?\<close>.\<close>

definition promote_user ::
  "database \<Rightarrow> (int \<times> string \<times> string) option \<Rightarrow> outcome \<times> database" where
  "promote_user db selected =
     (case selected of
        None \<Rightarrow> (Selection_Error, db)
      | Some (user_id, username, role) \<Rightarrow>
          if role \<noteq> ''Student'' then (Only_Students_Can_Be_Promoted, db)
          else (Success,
                db\<lparr>users := map (\<lambda>u. if users_id u = user_id
                                      then u\<lparr>users_role := ''Instructor''\<rparr> else u)
                                (users db)\<rparr>))"

text \<open>The query of \<^verbatim>\<open>CourseDetailsFrame.update_progress\<close>:
  \<^verbatim>\<open>SELECT enrollments.id, users.username FROM enrollments JOIN users
  ON enrollments.student_id = users.id WHERE enrollments.course_id = ?\<close>.\<close>

definition enrolled_students :: "database \<Rightarrow> int \<Rightarrow> (int \<times> string) list" where
  "enrolled_students db course_id =
     [(enrollments_id e, users_username u).
        e \<leftarrow> enrollments db, u \<leftarrow> users db,
        enrollments_student_id e = users_id u, enrollments_course_id e = course_id]"

text \<open>\<^verbatim>\<open>CourseDetailsFrame.update_progress\<close> on the text of the progress entry and the
  id of the course that has the focus in the instructor's list (\<open>None\<close>: no row has
  it). The loop runs one \<^verbatim>\<open>UPDATE\<close> for each row of the query, inside one
  transaction.\<close>

definition CourseDetailsFrame_update_progress ::
  "database \<Rightarrow> string \<Rightarrow> int option \<Rightarrow> outcome \<times> database" where
  "CourseDetailsFrame_update_progress db progress_entry selected =
     (let progress = strip progress_entry in
      if \<not> isdigit progress then (Invalid_Progress, db)
      else
        case int_of_str progress of
          None \<Rightarrow> (Raised ValueError, db)
        | Some n \<Rightarrow>
            if \<not> (0 \<le> n \<and> n \<le> 100) then (Invalid_Progress, db)
            else
              (case selected of
                 None \<Rightarrow> (Selection_Error, db)
               | Some course_id \<Rightarrow>
                   let enrollments = enrolled_students db course_id in
                   if enrollments = [] then (No_Students_Enrolled, db)
                   else (Success,
                         fold (\<lambda>enrollment d. update_enrollments_by_id d n (fst enrollment))
                              enrollments db)))"

text \<open>\<^verbatim>\<open>ProfileFrame.change_password\<close> on the texts of the three entries, with its
  \<^verbatim>\<open>UPDATE users SET password = ? WHERE id = ?\<close>. When the user of the session
  is no longer stored, \<^verbatim>\<open>get_user\<close> returns \<^verbatim>\<open>None\<close> and \<^verbatim>\<open>user[2]\<close> raises
  \<^verbatim>\<open>TypeError\<close>.\<close>

definition change_password ::
  "kdf \<Rightarrow> salt \<Rightarrow> database \<Rightarrow> session \<Rightarrow> string \<Rightarrow> string \<Rightarrow> string \<Rightarrow> outcome \<times> database" where
  "change_password f s db current_user current_entry new_entry confirm_entry =
     (let current = strip current_entry;
          new = strip new_entry;
          confirm = strip confirm_entry in
      if current = [] \<or> new = [] \<or> confirm = [] then (Fill_All_Fields, db)
      else
        case get_user db (session_username current_user) of
          None \<Rightarrow> (Raised TypeError, db)
        | Some user \<Rightarrow>
            if \<not> checkpw f current (users_password user)
            then (Current_Password_Incorrect, db)
            else if length new < 6 then (New_Password_Too_Short, db)
            else if new \<noteq> confirm then (New_Passwords_Do_Not_Match, db)
            else
              let hashed = hashpw f new s in
              (Success,
               db\<lparr>users := map (\<lambda>u. if users_id u = session_id current_user
                                     then u\<lparr>users_password := hashed\<rparr> else u)
                               (users db)\<rparr>))"

subsection \<open>A stored file to run the model on\<close>

text \<open>The file after a first start with salt \<open>s0\<close>, the registration of a student
  and of an instructor, the creation of one course and one enrollment.\<close>

definition example_users :: "user_row list" where
  "example_users =
     [\<lparr>users_id = 1, users_username = ''admin'',
       users_password = hashpw example_kdf ''admin123'' ''s0'', users_role = ''Admin''\<rparr>,
      \<lparr>users_id = 2, users_username = ''alice'',
       users_password = hashpw example_kdf ''secret1'' ''s1'', users_role = ''Student''\<rparr>,
      \<lparr>users_id = 3, users_username = ''bobby'',
       users_password = hashpw example_kdf ''secret2'' ''s2'', users_role = ''Instructor''\<rparr>]"

definition example_database :: database where
  "example_database =
     \<lparr>users = example_users,
      courses = [\<lparr>courses_id = 1, courses_title = ''Logic'', courses_description = ''HOL'',
                  courses_instructor_id = 3, courses_price = 10\<rparr>],
      enrollments = [\<lparr>enrollments_id = 1, enrollments_student_id = 2,
                      enrollments_course_id = 1, enrollments_progress = 0\<rparr>],
      users_seq = 3, courses_seq = 1, enrollments_seq = 1\<rparr>"

text \<open>The example file after a third user, carol (id 4), registered, enrolled in
  course 1 and was deleted by the administrator: her enrollment row stays behind.\<close>

definition orphaned_database :: database where
  "orphaned_database =
     \<lparr>users = example_users,
      courses = [\<lparr>courses_id = 1, courses_title = ''Logic'', courses_description = ''HOL'',
                  courses_instructor_id = 3, courses_price = 10\<rparr>],
      enrollments = [\<lparr>enrollments_id = 1, enrollments_student_id = 2,
                      enrollments_course_id = 1, enrollments_progress = 0\<rparr>,
                     \<lparr>enrollments_id = 2, enrollments_student_id = 4,
                      enrollments_course_id = 1, enrollments_progress = 0\<rparr>],
      users_seq = 4, courses_seq = 1, enrollments_seq = 2\<rparr>"

text \<open>The student of an enrollment row is a stored user.\<close>

definition has_student :: "database \<Rightarrow> enrollment_row \<Rightarrow> bool" where
  "has_student db e = (enrollments_student_id e \<in> set (map users_id (users db)))"

subsection \<open>The files and sessions the program produces\<close>

text \<open>
  A state is the stored file together with \<^verbatim>\<open>controller.current_user\<close>. The program
  starts on the empty file or on a file it left earlier, and
  \<^verbatim>\<open>DatabaseHandler.__init__\<close> runs \<^verbatim>\<open>setup_database\<close> before any frame exists.
  Afterwards the file changes only through the event handlers. The rules keep what
  the interface enforces and the properties below depend on: the role of a registration
  comes from the role box, the user list is open to a session with the role Admin
  only, and the row a handler of that list works on is a row of the list, which is
  reloaded from the file after every change. For the courses and the enrollments the
  rules allow any argument, which is more than the interface does.
\<close>

inductive reachable :: "kdf \<Rightarrow> database \<times> session option \<Rightarrow> bool" for f :: kdf where
  first_start:
    "setup_database f s empty_database = Inr db \<Longrightarrow> reachable f (db, None)"
| restart:
    "reachable f (db, current_user) \<Longrightarrow> setup_database f s db = Inr db' \<Longrightarrow>
     reachable f (db', None)"
| login:
    "reachable f (db, current_user) \<Longrightarrow>
     reachable f (db, snd (login f db current_user username_entry password_entry))"
| logout:
    "reachable f (db, current_user) \<Longrightarrow> reachable f (db, None)"
| register:
    "reachable f (db, current_user) \<Longrightarrow> role_combo \<in> set [''Student'', ''Instructor''] \<Longrightarrow>
     reachable f (snd (register f s db username_entry password_entry confirm_entry role_combo),
                  current_user)"
| change_password:
    "reachable f (db, Some user) \<Longrightarrow>
     reachable f (snd (change_password f s db user current_entry new_entry confirm_entry),
                  Some user)"
| delete_user:
    "reachable f (db, Some user) \<Longrightarrow> session_role user = ''Admin'' \<Longrightarrow>
     (\<forall>row. selected = Some row \<longrightarrow> row \<in> set (get_all_users db)) \<Longrightarrow>
     reachable f (snd (AdminDashboard_delete_user db user selected confirm), Some user)"
| promote_user:
    "reachable f (db, Some user) \<Longrightarrow> session_role user = ''Admin'' \<Longrightarrow>
     (\<forall>row. selected = Some row \<longrightarrow> row \<in> set (get_all_users db)) \<Longrightarrow>
     reachable f (snd (promote_user db selected), Some user)"
| add_course:
    "reachable f (db, current_user) \<Longrightarrow>
     reachable f (snd (add_course db title description instructor_id price), current_user)"
| delete_course:
    "reachable f (db, current_user) \<Longrightarrow>
     reachable f (delete_course db course_id, current_user)"
| enroll_student:
    "reachable f (db, current_user) \<Longrightarrow>
     reachable f (snd (enroll_student db student_id course_id), current_user)"
| update_progress:
    "reachable f (db, current_user) \<Longrightarrow>
     reachable f (snd (CourseDetailsFrame_update_progress db progress_entry selected_course),
                  current_user)"


section \<open>Properties of the store\<close>

lemma example_database_reachable:
  "example_database =
     (case setup_database example_kdf ''s0'' empty_database of
        Inr d0 \<Rightarrow>
          let d1 = snd (add_user example_kdf ''s1'' d0 ''alice'' ''secret1'' ''Student'');
              d2 = snd (add_user example_kdf ''s2'' d1 ''bobby'' ''secret2'' ''Instructor'');
              d3 = snd (add_course d2 ''Logic'' ''HOL'' 3 10)
          in snd (enroll_student d3 2 1))"
  by (simp add: example_database_def example_users_def setup_database_def empty_database_def
      insert_users_def add_user_def add_course_def insert_courses_def enroll_student_def
      insert_enrollments_def next_rowid_def roles_def Let_def)

lemma orphaned_database_reachable:
  "orphaned_database =
     (let d1 = snd (add_user example_kdf ''s3'' example_database ''carol'' ''secret3'' ''Student'');
          d2 = snd (enroll_student d1 4 1)
      in snd (AdminDashboard_delete_user d2
                \<lparr>session_id = 1, session_username = ''admin'', session_role = ''Admin''\<rparr>
                (Some (4, ''carol'', ''Student'')) True))"
  by (simp add: orphaned_database_def example_database_def example_users_def add_user_def
      insert_users_def roles_def next_rowid_def enroll_student_def insert_enrollments_def
      AdminDashboard_delete_user_def delete_user_def Let_def)

subsection \<open>Users: lookup and insertion\<close>




lemma insert_users_fresh:
  assumes "username \<notin> set (map users_username (users db))" and "role \<in> set roles"
  shows "insert_users db username password role =
           Some (db\<lparr>users := users db @
                     [\<lparr>users_id = next_rowid (users_seq db) (map users_id (users db)),
                       users_username = username, users_password = password,
                       users_role = role\<rparr>],
                   users_seq := next_rowid (users_seq db) (map users_id (users db))\<rparr>)"
  using assms by (simp add: insert_users_def Let_def)

lemma insert_users_taken:
  assumes "username \<in> set (map users_username (users db))"
  shows "insert_users db username password role = None"
  using assms by (simp add: insert_users_def)

lemma checkpw_hashpw: "checkpw f p' (hashpw f p s) \<longleftrightarrow> f s p' = f s p"
  by (simp add: checkpw_def hashpw_def)


lemma strip_admin: "strip ''admin'' = ''admin''" "strip ''admin123'' = ''admin123''"
  by (simp_all add: strip_def isspace_def)

subsection \<open>Seeding the administrator\<close>


subsection \<open>Registration\<close>

text \<open>
  C3. From a file that does not hold the username, a first \<^verbatim>\<open>add_user\<close> with a
  role that passes the \<^verbatim>\<open>CHECK\<close> returns \<^verbatim>\<open>True\<close> and appends one row; a second
  \<^verbatim>\<open>add_user\<close> with the same username, whatever its password, salt and role, returns
  \<^verbatim>\<open>False\<close> and leaves the file as the first call left it; exactly one row has the
  username afterwards.
\<close>

theorem add_user_twice:
  assumes "username \<notin> set (map users_username (users db))" and "role1 \<in> set roles"
  shows "fst (add_user f s1 db username password1 role1) \<and>
         users (snd (add_user f s1 db username password1 role1)) =
           users db @
             [\<lparr>users_id = next_rowid (users_seq db) (map users_id (users db)),
               users_username = username, users_password = hashpw f password1 s1,
               users_role = role1\<rparr>] \<and>
         add_user f s2 (snd (add_user f s1 db username password1 role1))
                  username password2 role2 =
           (False, snd (add_user f s1 db username password1 role1)) \<and>
         length (filter (\<lambda>u. users_username u = username)
                        (users (snd (add_user f s1 db username password1 role1)))) = 1"
proof -
  let ?i = "next_rowid (users_seq db) (map users_id (users db))"
  let ?r = "\<lparr>users_id = ?i, users_username = username,
             users_password = hashpw f password1 s1, users_role = role1\<rparr>"
  let ?db1 = "db\<lparr>users := users db @ [?r], users_seq := ?i\<rparr>"
  have first: "add_user f s1 db username password1 role1 = (True, ?db1)"
    using insert_users_fresh [OF assms] by (simp add: add_user_def)
  have taken: "username \<in> set (map users_username (users ?db1))" by simp
  have second: "add_user f s2 ?db1 username password2 role2 = (False, ?db1)"
    using insert_users_taken [OF taken] by (simp add: add_user_def)
  have none: "filter (\<lambda>u. users_username u = username) (users db) = []"
    using assms(1) by (auto simp: filter_empty_conv)
  show ?thesis
    using second none by (simp add: first)
qed

theorem add_user_twice_witness:
  "''carol'' \<notin> set (map users_username (users example_database)) \<and>
   ''Student'' \<in> set roles \<and>
   fst (add_user example_kdf ''s3'' example_database ''carol'' ''secret3'' ''Student'') \<and>
   add_user example_kdf ''s4''
       (snd (add_user example_kdf ''s3'' example_database ''carol'' ''secret3'' ''Student''))
       ''carol'' ''secret4'' ''Instructor'' =
     (False, snd (add_user example_kdf ''s3'' example_database ''carol'' ''secret3'' ''Student'')) \<and>
   length (filter (\<lambda>u. users_username u = ''carol'')
       (users (snd (add_user example_kdf ''s3'' example_database ''carol'' ''secret3''
                      ''Student'')))) = 1"
proof -
  have h1: "''carol'' \<notin> set (map users_username (users example_database))"
    by (simp add: example_database_def example_users_def)
  have h2: "''Student'' \<in> set roles"
    by (simp add: roles_def)
  note t = add_user_twice [OF h1 h2, of example_kdf "''s3''" "''secret3''" "''s4''"
      "''secret4''" "''Instructor''"]
  note a = t [THEN conjunct1]
  note b = t [THEN conjunct2, THEN conjunct2, THEN conjunct1]
  note c = t [THEN conjunct2, THEN conjunct2, THEN conjunct2]
  show ?thesis
    by (rule conjI [OF h1 conjI [OF h2 conjI [OF a conjI [OF b c]]]])
qed




subsection \<open>Promotion\<close>

lemma find_map_same:
  assumes "\<And>x. P (g x) = P x"
  shows "find P (map g xs) = map_option g (find P xs)"
  using assms by (induction xs) auto

lemma get_user_map:
  assumes "\<And>u. users_username (g u) = users_username u"
  shows "get_user (db\<lparr>users := map g (users db)\<rparr>) username =
           map_option g (get_user db username)"
  using assms by (simp add: get_user_def find_map_same)

lemma get_user_Some:
  assumes "get_user db username = Some user"
  shows "user \<in> set (users db) \<and> users_username user = username"
  using assms by (auto simp: get_user_def find_Some_iff)

text \<open>
  C6. For a row (id, username, role) of the user list: when the role is not Student
  (so for an Instructor and for an Admin) \<^verbatim>\<open>promote_user\<close> answers that only
  students can be promoted and leaves the file unchanged; when the role is Student it
  succeeds, the rows with that id get the role Instructor and nothing else changes
  (other users, passwords, courses, enrollments), and a login of that user that
  returned the role Student before returns the role Instructor afterwards.
\<close>

theorem promote_user_student_only:
  assumes "(user_id, username, role) \<in> set (get_all_users db)"
  shows "(role \<noteq> ''Student'' \<longrightarrow>
            promote_user db (Some (user_id, username, role)) =
              (Only_Students_Can_Be_Promoted, db)) \<and>
         (role = ''Student'' \<longrightarrow>
            fst (promote_user db (Some (user_id, username, role))) = Success \<and>
            get_all_users (snd (promote_user db (Some (user_id, username, role)))) =
              map (\<lambda>(i, n, r). if i = user_id then (i, n, ''Instructor'') else (i, n, r))
                  (get_all_users db) \<and>
            (user_id, username, ''Instructor'') \<in>
              set (get_all_users (snd (promote_user db (Some (user_id, username, role))))) \<and>
            map users_password (users (snd (promote_user db (Some (user_id, username, role))))) =
              map users_password (users db) \<and>
            courses (snd (promote_user db (Some (user_id, username, role)))) = courses db \<and>
            enrollments (snd (promote_user db (Some (user_id, username, role)))) =
              enrollments db \<and>
            (\<forall>password.
               authenticate f db username password =
                 Some \<lparr>session_id = user_id, session_username = username,
                       session_role = ''Student''\<rparr> \<longrightarrow>
               authenticate f (snd (promote_user db (Some (user_id, username, role))))
                            username password =
                 Some \<lparr>session_id = user_id, session_username = username,
                       session_role = ''Instructor''\<rparr>))"
proof (intro conjI impI)
  assume "role \<noteq> ''Student''"
  then show "promote_user db (Some (user_id, username, role)) =
               (Only_Students_Can_Be_Promoted, db)"
    by (simp add: promote_user_def)
next
  assume r: "role = ''Student''"
  let ?g = "\<lambda>u. if users_id u = user_id then u\<lparr>users_role := ''Instructor''\<rparr> else u"
  let ?db1 = "db\<lparr>users := map ?g (users db)\<rparr>"
  have res: "promote_user db (Some (user_id, username, role)) = (Success, ?db1)"
    using r by (simp add: promote_user_def)
  show "fst (promote_user db (Some (user_id, username, role))) = Success"
    by (simp add: res)
  show all: "get_all_users (snd (promote_user db (Some (user_id, username, role)))) =
          map (\<lambda>(i, n, r). if i = user_id then (i, n, ''Instructor'') else (i, n, r))
              (get_all_users db)"
    by (simp add: res get_all_users_def)
  show "(user_id, username, ''Instructor'') \<in>
          set (get_all_users (snd (promote_user db (Some (user_id, username, role)))))"
    unfolding all using assms by (force simp: image_iff)
  show "map users_password (users (snd (promote_user db (Some (user_id, username, role))))) =
          map users_password (users db)"
    by (simp add: res)
  show "courses (snd (promote_user db (Some (user_id, username, role)))) = courses db"
    by (simp add: res)
  show "enrollments (snd (promote_user db (Some (user_id, username, role)))) = enrollments db"
    by (simp add: res)
  show "\<forall>password.
          authenticate f db username password =
            Some \<lparr>session_id = user_id, session_username = username,
                  session_role = ''Student''\<rparr> \<longrightarrow>
          authenticate f (snd (promote_user db (Some (user_id, username, role))))
                       username password =
            Some \<lparr>session_id = user_id, session_username = username,
                  session_role = ''Instructor''\<rparr>"
  proof (intro allI impI)
    fix password
    assume a: "authenticate f db username password =
                 Some \<lparr>session_id = user_id, session_username = username,
                       session_role = ''Student''\<rparr>"
    then obtain user where u: "get_user db username = Some user"
      and c: "checkpw f password (users_password user)"
      and i: "users_id user = user_id"
      by (auto simp: authenticate_def split: option.splits if_splits)
    have n: "users_username user = username"
      using get_user_Some [OF u] by simp
    have "get_user ?db1 username = map_option ?g (get_user db username)"
      by (rule get_user_map) simp
    then have "get_user ?db1 username = Some (user\<lparr>users_role := ''Instructor''\<rparr>)"
      by (simp add: u i)
    then show "authenticate f (snd (promote_user db (Some (user_id, username, role))))
                 username password =
               Some \<lparr>session_id = user_id, session_username = username,
                     session_role = ''Instructor''\<rparr>"
      by (simp add: res authenticate_def c i n)
  qed
qed

theorem promote_user_student_only_witness:
  "(2, ''alice'', ''Student'') \<in> set (get_all_users example_database) \<and>
   (3, ''bobby'', ''Instructor'') \<in> set (get_all_users example_database) \<and>
   promote_user example_database (Some (3, ''bobby'', ''Instructor'')) =
     (Only_Students_Can_Be_Promoted, example_database) \<and>
   fst (promote_user example_database (Some (2, ''alice'', ''Student''))) = Success \<and>
   authenticate example_kdf example_database ''alice'' ''secret1'' =
     Some \<lparr>session_id = 2, session_username = ''alice'', session_role = ''Student''\<rparr> \<and>
   authenticate example_kdf
       (snd (promote_user example_database (Some (2, ''alice'', ''Student''))))
       ''alice'' ''secret1'' =
     Some \<lparr>session_id = 2, session_username = ''alice'', session_role = ''Instructor''\<rparr>"
proof -
  have h1: "(2, ''alice'', ''Student'') \<in> set (get_all_users example_database)"
    by (simp add: get_all_users_def example_database_def example_users_def)
  have h2: "(3, ''bobby'', ''Instructor'') \<in> set (get_all_users example_database)"
    by (simp add: get_all_users_def example_database_def example_users_def)
  have h3: "''Instructor'' \<noteq> ''Student''" by simp
  have h4: "authenticate example_kdf example_database ''alice'' ''secret1'' =
      Some \<lparr>session_id = 2, session_username = ''alice'', session_role = ''Student''\<rparr>"
    by (simp add: authenticate_def get_user_def example_database_def example_users_def
        checkpw_def hashpw_def)
  note rejected = promote_user_student_only [OF h2, THEN conjunct1, THEN mp, OF h3]
  note promoted = promote_user_student_only [OF h1, of example_kdf, THEN conjunct2, THEN mp,
      OF refl]
  note a = promoted [THEN conjunct1]
  note g = promoted [THEN conjunct2, THEN conjunct2, THEN conjunct2, THEN conjunct2,
      THEN conjunct2, THEN conjunct2, THEN spec, of "''secret1''", THEN mp, OF h4]
  show ?thesis
    by (rule conjI [OF h1 conjI [OF h2 conjI [OF rejected conjI [OF a conjI [OF h4 g]]]]])
qed

subsection \<open>Deleting a user\<close>

lemma filter_id_remove1:
  assumes "distinct (map users_id xs)" and "u \<in> set xs"
  shows "filter (\<lambda>v. users_id v \<noteq> users_id u) xs = remove1 u xs"
  using assms
proof (induction xs)
  case Nil
  then show ?case by simp
next
  case (Cons x xs)
  show ?case
  proof (cases "x = u")
    case True
    have "filter (\<lambda>v. users_id v \<noteq> users_id u) xs = xs"
      using Cons.prems(1) True by (auto simp: filter_id_conv image_iff)
    then show ?thesis using True by simp
  next
    case False
    then have "u \<in> set xs" using Cons.prems(2) by simp
    moreover have "users_id x \<noteq> users_id u"
      using Cons.prems(1) \<open>u \<in> set xs\<close> by (auto simp: image_iff)
    ultimately show ?thesis using Cons False by simp
  qed
qed

lemma map_remove1_inj:
  assumes "inj_on g (set xs)" and "x \<in> set xs"
  shows "map g (remove1 x xs) = remove1 (g x) (map g xs)"
  using assms by (induction xs) (auto simp: inj_on_def)

text \<open>
  C8. In a stored file (ids and usernames free of duplicates) that holds the user of
  the session, for a row (id, username, role) of the user list:
  \<^verbatim>\<open>AdminDashboard.delete_user\<close> refuses when the row is the session's own user,
  whatever the answer to the confirmation, and the file is unchanged; for any other
  user a confirmed request removes exactly that row (one row fewer, the session's
  user still stored, courses and enrollments untouched), and a request that is not
  confirmed changes nothing.
\<close>

theorem admin_delete_user_not_self:
  assumes "distinct (map users_id (users db))"
      and "distinct (map users_username (users db))"
      and "(session_id current_user, session_username current_user, role0) \<in>
             set (get_all_users db)"
      and "(user_id, username, role) \<in> set (get_all_users db)"
  shows "(user_id = session_id current_user \<longrightarrow>
            AdminDashboard_delete_user db current_user (Some (user_id, username, role)) confirm =
              (Cannot_Delete_Own_Account, db)) \<and>
         (user_id \<noteq> session_id current_user \<longrightarrow>
            fst (AdminDashboard_delete_user db current_user
                   (Some (user_id, username, role)) True) = Success \<and>
            get_all_users (snd (AdminDashboard_delete_user db current_user
                   (Some (user_id, username, role)) True)) =
              remove1 (user_id, username, role) (get_all_users db) \<and>
            length (users (snd (AdminDashboard_delete_user db current_user
                   (Some (user_id, username, role)) True))) + 1 = length (users db) \<and>
            (session_id current_user, session_username current_user, role0) \<in>
              set (get_all_users (snd (AdminDashboard_delete_user db current_user
                   (Some (user_id, username, role)) True))) \<and>
            courses (snd (AdminDashboard_delete_user db current_user
                   (Some (user_id, username, role)) True)) = courses db \<and>
            enrollments (snd (AdminDashboard_delete_user db current_user
                   (Some (user_id, username, role)) True)) = enrollments db \<and>
            AdminDashboard_delete_user db current_user (Some (user_id, username, role)) False =
              (Cancelled, db))"
proof -
  obtain u where u: "u \<in> set (users db)" "users_id u = user_id"
      "users_username u = username" "users_role u = role"
    using assms(4) by (auto simp: get_all_users_def)
  obtain c where c: "c \<in> set (users db)" "users_id c = session_id current_user"
      "users_username c = session_username current_user" "users_role c = role0"
    using assms(3) by (auto simp: get_all_users_def)
  have same: "user_id = session_id current_user \<longleftrightarrow> username = session_username current_user"
  proof
    assume "user_id = session_id current_user"
    then have "u = c" using assms(1) u c by (auto simp: distinct_map inj_on_def)
    then show "username = session_username current_user" using u c by simp
  next
    assume "username = session_username current_user"
    then have "u = c" using assms(2) u c by (auto simp: distinct_map inj_on_def)
    then show "user_id = session_id current_user" using u c by simp
  qed
  have own: "user_id = session_id current_user \<Longrightarrow>
      AdminDashboard_delete_user db current_user (Some (user_id, username, role)) confirm =
        (Cannot_Delete_Own_Account, db)"
    using same by (simp add: AdminDashboard_delete_user_def)
  let ?db1 = "delete_user db user_id"
  have del: "user_id \<noteq> session_id current_user \<Longrightarrow>
      AdminDashboard_delete_user db current_user (Some (user_id, username, role)) True =
        (Success, ?db1)"
    using same by (simp add: AdminDashboard_delete_user_def)
  have canc: "user_id \<noteq> session_id current_user \<Longrightarrow>
      AdminDashboard_delete_user db current_user (Some (user_id, username, role)) False =
        (Cancelled, db)"
    using same by (simp add: AdminDashboard_delete_user_def)
  have rem: "users ?db1 = remove1 u (users db)"
    using filter_id_remove1 [OF assms(1) u(1)] u(2) by (simp add: delete_user_def)
  have inj: "inj_on (\<lambda>u. (users_id u, users_username u, users_role u)) (set (users db))"
    using assms(1) by (auto simp: distinct_map inj_on_def)
  have all: "get_all_users ?db1 = remove1 (user_id, username, role) (get_all_users db)"
    using map_remove1_inj [OF inj u(1)] unfolding get_all_users_def rem
    by (simp add: u)
  have len: "length (users ?db1) + 1 = length (users db)"
    unfolding rem using u(1) by (simp add: length_remove1) (cases "users db"; simp)
  have stay: "user_id \<noteq> session_id current_user \<Longrightarrow>
      (session_id current_user, session_username current_user, role0) \<in>
        set (get_all_users ?db1)"
    using c u by (auto simp: get_all_users_def delete_user_def image_iff)
  have other: "courses ?db1 = courses db" "enrollments ?db1 = enrollments db"
    by (simp_all add: delete_user_def)
  show ?thesis
    using own del canc all len stay other by simp
qed

theorem admin_delete_user_not_self_witness:
  "distinct (map users_id (users example_database)) \<and>
   distinct (map users_username (users example_database)) \<and>
   (1, ''admin'', ''Admin'') \<in> set (get_all_users example_database) \<and>
   (2, ''alice'', ''Student'') \<in> set (get_all_users example_database) \<and>
   AdminDashboard_delete_user example_database
       \<lparr>session_id = 1, session_username = ''admin'', session_role = ''Admin''\<rparr>
       (Some (1, ''admin'', ''Admin'')) True =
     (Cannot_Delete_Own_Account, example_database) \<and>
   fst (AdminDashboard_delete_user example_database
       \<lparr>session_id = 1, session_username = ''admin'', session_role = ''Admin''\<rparr>
       (Some (2, ''alice'', ''Student'')) True) = Success \<and>
   get_all_users (snd (AdminDashboard_delete_user example_database
       \<lparr>session_id = 1, session_username = ''admin'', session_role = ''Admin''\<rparr>
       (Some (2, ''alice'', ''Student'')) True)) =
     [(1, ''admin'', ''Admin''), (3, ''bobby'', ''Instructor'')]"
proof -
  let ?cur = "\<lparr>session_id = 1, session_username = ''admin'', session_role = ''Admin''\<rparr>"
  have d1: "distinct (map users_id (users example_database))"
    by (simp add: example_database_def example_users_def)
  have d2: "distinct (map users_username (users example_database))"
    by (simp add: example_database_def example_users_def)
  have h1: "(1, ''admin'', ''Admin'') \<in> set (get_all_users example_database)"
    by (simp add: get_all_users_def example_database_def example_users_def)
  have h2: "(2, ''alice'', ''Student'') \<in> set (get_all_users example_database)"
    by (simp add: get_all_users_def example_database_def example_users_def)
  have c1: "(session_id ?cur, session_username ?cur, ''Admin'') \<in>
              set (get_all_users example_database)"
    using h1 by simp
  have e1: "1 = session_id ?cur" by simp
  have e2: "2 \<noteq> session_id ?cur" by simp
  have r: "remove1 (2, ''alice'', ''Student'') (get_all_users example_database) =
             [(1, ''admin'', ''Admin''), (3, ''bobby'', ''Instructor'')]"
    by (simp add: get_all_users_def example_database_def example_users_def)
  note own = admin_delete_user_not_self [OF d1 d2 c1 h1, of True, THEN conjunct1, THEN mp, OF e1]
  note other = admin_delete_user_not_self [OF d1 d2 c1 h2, of True, THEN conjunct2, THEN mp,
      OF e2]
  note a = other [THEN conjunct1]
  note b = trans [OF other [THEN conjunct2, THEN conjunct1] r]
  show ?thesis
    by (rule conjI [OF d1 conjI [OF d2 conjI [OF h1 conjI [OF h2 conjI [OF own
          conjI [OF a b]]]]]])
qed

subsection \<open>Changing the password\<close>

lemma strip_examples:
  "strip ''secret1'' = ''secret1''" "strip ''abcde '' = ''abcde''" "strip ''  '' = []"
  "strip ''wrong'' = ''wrong''" "strip ''secret5'' = ''secret5''" "strip ''abc'' = ''abc''"
  by (simp_all add: strip_def isspace_def)

lemma get_user_alice:
  "get_user example_database ''alice'' =
     Some \<lparr>users_id = 2, users_username = ''alice'',
           users_password = hashpw example_kdf ''secret1'' ''s1'', users_role = ''Student''\<rparr>"
  by (simp add: get_user_def example_database_def example_users_def)

text \<open>
  C5, as the claim states it, fails, on the user alice of the example file, whose
  password is \<open>secret1\<close>. With the current password right and the new password equal
  to it, the change succeeds and the old password still authenticates. With the new
  entry \<open>abcde\<close> followed by a space (six characters) the handler trims the entry
  and rejects it as too short. With a wrong current password and blank entries for the
  new password the answer is the request to fill all fields, not the wrong-password
  error.
\<close>

theorem change_password_same_or_padded:
  "fst (change_password example_kdf ''s5'' example_database
          \<lparr>session_id = 2, session_username = ''alice'', session_role = ''Student''\<rparr>
          ''secret1'' ''secret1'' ''secret1'') = Success \<and>
   authenticate example_kdf
     (snd (change_password example_kdf ''s5'' example_database
          \<lparr>session_id = 2, session_username = ''alice'', session_role = ''Student''\<rparr>
          ''secret1'' ''secret1'' ''secret1''))
     ''alice'' ''secret1'' =
     Some \<lparr>session_id = 2, session_username = ''alice'', session_role = ''Student''\<rparr> \<and>
   length ''abcde '' = 6 \<and>
   change_password example_kdf ''s5'' example_database
       \<lparr>session_id = 2, session_username = ''alice'', session_role = ''Student''\<rparr>
       ''secret1'' ''abcde '' ''abcde '' = (New_Password_Too_Short, example_database) \<and>
   \<not> checkpw example_kdf ''wrong'' (hashpw example_kdf ''secret1'' ''s1'') \<and>
   change_password example_kdf ''s5'' example_database
       \<lparr>session_id = 2, session_username = ''alice'', session_role = ''Student''\<rparr>
       ''wrong'' ''  '' ''  '' = (Fill_All_Fields, example_database)"
proof -
  let ?cur = "\<lparr>session_id = 2, session_username = ''alice'', session_role = ''Student''\<rparr>"
  have a: "change_password example_kdf ''s5'' example_database ?cur
             ''secret1'' ''secret1'' ''secret1'' =
           (Success, example_database
              \<lparr>users := map (\<lambda>u. if users_id u = 2
                                  then u\<lparr>users_password := hashpw example_kdf ''secret1'' ''s5''\<rparr>
                                  else u) (users example_database)\<rparr>)"
    by (simp add: change_password_def strip_examples get_user_alice checkpw_hashpw)
  have b: "authenticate example_kdf
             (example_database
                \<lparr>users := map (\<lambda>u. if users_id u = 2
                                  then u\<lparr>users_password := hashpw example_kdf ''secret1'' ''s5''\<rparr>
                                  else u) (users example_database)\<rparr>)
             ''alice'' ''secret1'' =
           Some \<lparr>session_id = 2, session_username = ''alice'', session_role = ''Student''\<rparr>"
    by (simp add: authenticate_def get_user_def example_database_def example_users_def
        checkpw_hashpw)
  have c: "change_password example_kdf ''s5'' example_database ?cur
             ''secret1'' ''abcde '' ''abcde '' = (New_Password_Too_Short, example_database)"
    by (simp add: change_password_def strip_examples get_user_alice checkpw_hashpw)
  have d: "\<not> checkpw example_kdf ''wrong'' (hashpw example_kdf ''secret1'' ''s1'')"
    by (simp add: checkpw_hashpw example_kdf_def)
  have e: "change_password example_kdf ''s5'' example_database ?cur
             ''wrong'' ''  '' ''  '' = (Fill_All_Fields, example_database)"
    by (simp add: change_password_def strip_examples)
  show ?thesis
    using b c d e by (simp add: a)
qed

text \<open>
  C5, amended. The handler works on the trimmed texts of its three entries. For a
  session whose user is stored, when the trimmed current and new entries are not empty
  and the confirmation equals the new password: if the current password does not
  verify against the stored digest, the answer is that the current password is
  incorrect and the file is unchanged; if it verifies and the new password has fewer
  than 6 characters, the answer is that it is too short and the file is unchanged; if
  it verifies and the new password has at least 6 characters, the change succeeds and
  afterwards \<open>authenticate\<close> succeeds for a password exactly when bcrypt derives
  from it, with the new salt, the key it derives from the new password: it succeeds
  with the new password and returns \<open>None\<close> for the old one when bcrypt tells the
  old password apart from the new one.
\<close>

theorem change_password_checked:
  assumes "get_user db (session_username current_user) = Some user"
      and "users_id user = session_id current_user"
      and "strip current_entry \<noteq> []"
      and "strip new_entry \<noteq> []"
      and "strip confirm_entry = strip new_entry"
  shows "(\<not> checkpw f (strip current_entry) (users_password user) \<longrightarrow>
            change_password f s db current_user current_entry new_entry confirm_entry =
              (Current_Password_Incorrect, db)) \<and>
         (checkpw f (strip current_entry) (users_password user) \<and>
          length (strip new_entry) < 6 \<longrightarrow>
            change_password f s db current_user current_entry new_entry confirm_entry =
              (New_Password_Too_Short, db)) \<and>
         (checkpw f (strip current_entry) (users_password user) \<and>
          6 \<le> length (strip new_entry) \<longrightarrow>
            fst (change_password f s db current_user current_entry new_entry confirm_entry) =
              Success \<and>
            authenticate f
              (snd (change_password f s db current_user current_entry new_entry confirm_entry))
              (session_username current_user) (strip new_entry) =
              Some \<lparr>session_id = session_id current_user,
                    session_username = session_username current_user,
                    session_role = users_role user\<rparr> \<and>
            (\<forall>p. authenticate f
                   (snd (change_password f s db current_user current_entry new_entry
                           confirm_entry))
                   (session_username current_user) p =
                 (if f s p = f s (strip new_entry)
                  then Some \<lparr>session_id = session_id current_user,
                             session_username = session_username current_user,
                             session_role = users_role user\<rparr>
                  else None)))"
proof (intro conjI impI)
  assume "\<not> checkpw f (strip current_entry) (users_password user)"
  then show "change_password f s db current_user current_entry new_entry confirm_entry =
               (Current_Password_Incorrect, db)"
    using assms by (simp add: change_password_def)
next
  assume "checkpw f (strip current_entry) (users_password user) \<and> length (strip new_entry) < 6"
  then show "change_password f s db current_user current_entry new_entry confirm_entry =
               (New_Password_Too_Short, db)"
    using assms by (simp add: change_password_def)
next
  assume ok: "checkpw f (strip current_entry) (users_password user) \<and>
              6 \<le> length (strip new_entry)"
  let ?new = "strip new_entry"
  let ?g = "\<lambda>u. if users_id u = session_id current_user
                 then u\<lparr>users_password := hashpw f ?new s\<rparr> else u"
  let ?db1 = "db\<lparr>users := map ?g (users db)\<rparr>"
  let ?name = "session_username current_user"
  have res: "change_password f s db current_user current_entry new_entry confirm_entry =
               (Success, ?db1)"
    using assms ok by (simp add: change_password_def)
  have "get_user ?db1 ?name = map_option ?g (get_user db ?name)"
    by (rule get_user_map) simp
  then have look: "get_user ?db1 ?name = Some (user\<lparr>users_password := hashpw f ?new s\<rparr>)"
    by (simp add: assms(1,2))
  have name: "users_username user = ?name"
    using get_user_Some [OF assms(1)] by simp
  have auth: "authenticate f ?db1 ?name p =
                (if f s p = f s ?new
                 then Some \<lparr>session_id = session_id current_user, session_username = ?name,
                            session_role = users_role user\<rparr>
                 else None)" for p
    unfolding authenticate_def look by (simp add: checkpw_hashpw assms(2) name)
  show "fst (change_password f s db current_user current_entry new_entry confirm_entry) =
          Success"
    by (simp add: res)
  show "authenticate f
          (snd (change_password f s db current_user current_entry new_entry confirm_entry))
          ?name ?new =
        Some \<lparr>session_id = session_id current_user, session_username = ?name,
              session_role = users_role user\<rparr>"
    unfolding res snd_conv by (simp add: auth)
  show "\<forall>p. authenticate f
              (snd (change_password f s db current_user current_entry new_entry confirm_entry))
              ?name p =
            (if f s p = f s ?new
             then Some \<lparr>session_id = session_id current_user, session_username = ?name,
                        session_role = users_role user\<rparr>
             else None)"
    unfolding res snd_conv using auth by (rule allI)
qed

theorem change_password_checked_witness:
  "get_user example_database ''alice'' =
     Some \<lparr>users_id = 2, users_username = ''alice'',
           users_password = hashpw example_kdf ''secret1'' ''s1'', users_role = ''Student''\<rparr> \<and>
   strip ''secret1'' \<noteq> [] \<and> strip ''secret5'' \<noteq> [] \<and>
   change_password example_kdf ''s5'' example_database
       \<lparr>session_id = 2, session_username = ''alice'', session_role = ''Student''\<rparr>
       ''wrong'' ''secret5'' ''secret5'' = (Current_Password_Incorrect, example_database) \<and>
   change_password example_kdf ''s5'' example_database
       \<lparr>session_id = 2, session_username = ''alice'', session_role = ''Student''\<rparr>
       ''secret1'' ''abc'' ''abc'' = (New_Password_Too_Short, example_database) \<and>
   fst (change_password example_kdf ''s5'' example_database
       \<lparr>session_id = 2, session_username = ''alice'', session_role = ''Student''\<rparr>
       ''secret1'' ''secret5'' ''secret5'') = Success \<and>
   authenticate example_kdf
     (snd (change_password example_kdf ''s5'' example_database
       \<lparr>session_id = 2, session_username = ''alice'', session_role = ''Student''\<rparr>
       ''secret1'' ''secret5'' ''secret5''))
     ''alice'' ''secret5'' =
     Some \<lparr>session_id = 2, session_username = ''alice'', session_role = ''Student''\<rparr> \<and>
   authenticate example_kdf
     (snd (change_password example_kdf ''s5'' example_database
       \<lparr>session_id = 2, session_username = ''alice'', session_role = ''Student''\<rparr>
       ''secret1'' ''secret5'' ''secret5''))
     ''alice'' ''secret1'' = None"
proof -
  let ?cur = "\<lparr>session_id = 2, session_username = ''alice'', session_role = ''Student''\<rparr>"
  let ?user = "\<lparr>users_id = 2, users_username = ''alice'',
                users_password = hashpw example_kdf ''secret1'' ''s1'',
                users_role = ''Student''\<rparr>"
  have u: "get_user example_database (session_username ?cur) = Some ?user"
    by (simp add: get_user_alice)
  have i: "users_id ?user = session_id ?cur" by simp
  have n1: "strip ''secret1'' \<noteq> []" and n2: "strip ''secret5'' \<noteq> []"
    and n3: "strip ''wrong'' \<noteq> []" and n4: "strip ''abc'' \<noteq> []"
    by (simp_all add: strip_examples)
  have bad: "\<not> checkpw example_kdf (strip ''wrong'') (users_password ?user)"
    by (simp add: strip_examples checkpw_hashpw example_kdf_def)
  have good: "checkpw example_kdf (strip ''secret1'') (users_password ?user)"
    by (simp add: strip_examples checkpw_hashpw)
  have short: "length (strip ''abc'') < 6" and long: "6 \<le> length (strip ''secret5'')"
    by (simp_all add: strip_examples)
  note wrong = change_password_checked [OF u i n3 n2 refl, of example_kdf "''s5''",
      THEN conjunct1, THEN mp, OF bad]
  note too_short = change_password_checked [OF u i n1 n4 refl, of example_kdf "''s5''",
      THEN conjunct2, THEN conjunct1, THEN mp, OF conjI [OF good short]]
  note changed = change_password_checked [OF u i n1 n2 refl, of example_kdf "''s5''",
      THEN conjunct2, THEN conjunct2, THEN mp, OF conjI [OF good long]]
  note a = changed [THEN conjunct1]
  note b = changed [THEN conjunct2, THEN conjunct1]
  note c = changed [THEN conjunct2, THEN conjunct2, THEN spec, of "''secret1''"]
  show ?thesis
    using wrong too_short a b c n1 n2
    by (simp add: strip_examples get_user_alice example_kdf_def)
qed

subsection \<open>Enrolling\<close>

text \<open>\<^verbatim>\<open>enroll_student\<close> always returns \<^verbatim>\<open>True\<close> and appends one row with progress
  0, whatever the table holds.\<close>

lemma enroll_student_appends:
  "fst (enroll_student db student_id course_id) \<and>
   enrollments (snd (enroll_student db student_id course_id)) =
     enrollments db @
       [\<lparr>enrollments_id = next_rowid (enrollments_seq db) (map enrollments_id (enrollments db)),
         enrollments_student_id = student_id, enrollments_course_id = course_id,
         enrollments_progress = 0\<rparr>]"
  by (simp add: enroll_student_def insert_enrollments_def Let_def)

text \<open>
  C1. The claim asks that a second enrollment of the same student in the same course
  fails and leaves one row. The code does not do that: in the example file student 2 is
  enrolled in course 1, and enrolling the pair again returns \<^verbatim>\<open>True\<close> and stores a
  second row for it.
\<close>

theorem enroll_student_twice_duplicates:
  "enroll_student example_database 2 1 =
     (True, example_database
        \<lparr>enrollments :=
           [\<lparr>enrollments_id = 1, enrollments_student_id = 2,
             enrollments_course_id = 1, enrollments_progress = 0\<rparr>,
            \<lparr>enrollments_id = 2, enrollments_student_id = 2,
             enrollments_course_id = 1, enrollments_progress = 0\<rparr>],
         enrollments_seq := 2\<rparr>)"
  by (simp add: enroll_student_def insert_enrollments_def example_database_def next_rowid_def)

subsection \<open>Bulk progress update\<close>

lemma strip_75: "strip ''75'' = ''75''"
  by (simp add: strip_def isspace_def)

lemma int_of_str_75: "int_of_str ''75'' = Some 75"
  by (simp add: int_of_str_def ascii_digit_def digit_value_def)

lemma isdigit_75: "isdigit ''75''"
  by (simp add: isdigit_def isdigit_char_def ascii_digit_def)

lemma int_of_str_Some:
  assumes "int_of_str s = Some n"
  shows "isdigit s \<and> 0 \<le> n"
proof -
  have d: "s \<noteq> []" "list_all ascii_digit s"
    and n: "n = fold (\<lambda>c n. 10 * n + digit_value c) s 0"
    using assms by (auto simp: int_of_str_def split: if_splits)
  have dv: "ascii_digit c \<Longrightarrow> 0 \<le> digit_value c" for c
    by (auto simp: ascii_digit_def digit_value_def)
  have "list_all ascii_digit t \<Longrightarrow> 0 \<le> a \<Longrightarrow>
          0 \<le> fold (\<lambda>c n. 10 * n + digit_value c) t a" for t a
    by (induction t arbitrary: a) (auto simp: dv)
  then have "0 \<le> n" using d n by simp
  moreover have "isdigit s"
    using d by (auto simp: isdigit_def isdigit_char_def list_all_iff)
  ultimately show ?thesis by simp
qed

lemma fold_update_enrollments:
  "fold (\<lambda>enrollment d. update_enrollments_by_id d n (fst enrollment)) rows db =
     db\<lparr>enrollments :=
          map (\<lambda>e. if enrollments_id e \<in> fst ` set rows
                   then e\<lparr>enrollments_progress := n\<rparr> else e)
              (enrollments db)\<rparr>"
proof (induction rows arbitrary: db)
  case Nil
  then show ?case by simp
next
  case (Cons r rows)
  let ?f = "\<lambda>enrollment d. update_enrollments_by_id d n (fst enrollment)"
  let ?d = "update_enrollments_by_id db n (fst r)"
  have "fold ?f (r # rows) db = fold ?f rows ?d"
    by simp
  also have "\<dots> = ?d\<lparr>enrollments :=
                      map (\<lambda>e. if enrollments_id e \<in> fst ` set rows
                               then e\<lparr>enrollments_progress := n\<rparr> else e)
                          (enrollments ?d)\<rparr>"
    by (rule Cons.IH)
  also have "\<dots> = db\<lparr>enrollments :=
                      map (\<lambda>e. if enrollments_id e \<in> fst ` set (r # rows)
                               then e\<lparr>enrollments_progress := n\<rparr> else e)
                          (enrollments db)\<rparr>"
    by (auto simp: update_enrollments_by_id_def)
  finally show ?case .
qed

lemma enrolled_students_ids:
  "i \<in> fst ` set (enrolled_students db course_id) \<longleftrightarrow>
     (\<exists>e \<in> set (enrollments db).
        enrollments_id e = i \<and> enrollments_course_id e = course_id \<and> has_student db e)"
  unfolding enrolled_students_def has_student_def
  by (fastforce simp: image_iff split: if_splits)

lemma enrolled_students_Nil:
  "enrolled_students db course_id = [] \<longleftrightarrow>
     \<not> (\<exists>e \<in> set (enrollments db). enrollments_course_id e = course_id \<and> has_student db e)"
proof -
  have "enrolled_students db course_id = [] \<longleftrightarrow>
          (\<forall>i. i \<notin> fst ` set (enrolled_students db course_id))"
    by (cases "enrolled_students db course_id") auto
  then show ?thesis unfolding enrolled_students_ids by auto
qed

text \<open>
  C7, as the claim states it, fails: the handler selects the rows to update through a
  join with the table of users, so an enrollment whose student is no longer stored is
  not updated. In the file with the orphaned row both enrollments belong to course 1;
  after the update to 75 the row of student 2 reads 75 and the row of the deleted
  student 4 still reads 0.
\<close>

theorem update_progress_skips_orphans:
  "CourseDetailsFrame_update_progress orphaned_database ''75'' (Some 1) =
     (Success,
      orphaned_database
        \<lparr>enrollments :=
           [\<lparr>enrollments_id = 1, enrollments_student_id = 2,
             enrollments_course_id = 1, enrollments_progress = 75\<rparr>,
            \<lparr>enrollments_id = 2, enrollments_student_id = 4,
             enrollments_course_id = 1, enrollments_progress = 0\<rparr>]\<rparr>)"
  by (simp add: CourseDetailsFrame_update_progress_def strip_75 int_of_str_75 isdigit_75
      enrolled_students_def orphaned_database_def example_users_def
      update_enrollments_by_id_def)

text \<open>
  C7, amended. In a stored file (enrollment ids free of duplicates), for a progress
  entry that reads, after trimming, as a decimal number \<open>p\<close> in [0,100], and a
  selected course: when some enrollment row of the course has a stored student, the
  handler succeeds and sets the progress to \<open>p\<close> on exactly the enrollment rows of
  that course whose student is a stored user; every other enrollment row (another
  course, or a student that is not stored) and everything else in the file is
  unchanged. When no row of the course has a stored student, it writes nothing and
  reports that no students are enrolled.
\<close>

theorem update_progress_all_enrolled:
  assumes "distinct (map enrollments_id (enrollments db))"
      and "int_of_str (strip progress_entry) = Some p"
      and "p \<le> 100"
  shows "CourseDetailsFrame_update_progress db progress_entry (Some course_id) =
           (if \<exists>e \<in> set (enrollments db).
                 enrollments_course_id e = course_id \<and> has_student db e
            then (Success,
                  db\<lparr>enrollments :=
                       map (\<lambda>e. if enrollments_course_id e = course_id \<and> has_student db e
                                then e\<lparr>enrollments_progress := p\<rparr> else e)
                           (enrollments db)\<rparr>)
            else (No_Students_Enrolled, db))"
proof -
  let ?rows = "enrolled_students db course_id"
  note ok = int_of_str_Some [OF assms(2)]
  have run: "CourseDetailsFrame_update_progress db progress_entry (Some course_id) =
               (if ?rows = [] then (No_Students_Enrolled, db)
                else (Success,
                      fold (\<lambda>enrollment d. update_enrollments_by_id d p (fst enrollment))
                           ?rows db))"
    using ok assms(2,3) by (simp add: CourseDetailsFrame_update_progress_def Let_def)
  have same: "enrollments_id e \<in> fst ` set ?rows \<longleftrightarrow>
                enrollments_course_id e = course_id \<and> has_student db e"
    if "e \<in> set (enrollments db)" for e
  proof
    assume "enrollments_id e \<in> fst ` set ?rows"
    then obtain e' where e': "e' \<in> set (enrollments db)" "enrollments_id e' = enrollments_id e"
        "enrollments_course_id e' = course_id" "has_student db e'"
      unfolding enrolled_students_ids by auto
    have "e' = e"
      using assms(1) that e'(1,2) by (auto simp: distinct_map inj_on_def)
    then show "enrollments_course_id e = course_id \<and> has_student db e"
      using e' by simp
  next
    assume "enrollments_course_id e = course_id \<and> has_student db e"
    then show "enrollments_id e \<in> fst ` set ?rows"
      unfolding enrolled_students_ids using that by auto
  qed
  have maps: "map (\<lambda>e. if enrollments_id e \<in> fst ` set ?rows
                       then e\<lparr>enrollments_progress := p\<rparr> else e) (enrollments db) =
              map (\<lambda>e. if enrollments_course_id e = course_id \<and> has_student db e
                       then e\<lparr>enrollments_progress := p\<rparr> else e) (enrollments db)"
    by (rule map_cong) (simp_all add: same)
  show ?thesis
    unfolding run fold_update_enrollments maps enrolled_students_Nil by simp
qed

theorem update_progress_all_enrolled_witness:
  "distinct (map enrollments_id (enrollments orphaned_database)) \<and>
   int_of_str (strip '' 75 '') = Some 75 \<and>
   (75::int) \<le> 100 \<and>
   CourseDetailsFrame_update_progress orphaned_database '' 75 '' (Some 1) =
     (Success,
      orphaned_database
        \<lparr>enrollments :=
           [\<lparr>enrollments_id = 1, enrollments_student_id = 2,
             enrollments_course_id = 1, enrollments_progress = 75\<rparr>,
            \<lparr>enrollments_id = 2, enrollments_student_id = 4,
             enrollments_course_id = 1, enrollments_progress = 0\<rparr>]\<rparr>) \<and>
   CourseDetailsFrame_update_progress orphaned_database '' 75 '' (Some 2) =
     (No_Students_Enrolled, orphaned_database)"
proof -
  have h1: "distinct (map enrollments_id (enrollments orphaned_database))"
    by (simp add: orphaned_database_def)
  have h2: "int_of_str (strip '' 75 '') = Some 75"
    by (simp add: strip_def isspace_def int_of_str_def ascii_digit_def digit_value_def)
  have h3: "(75::int) \<le> 100" by simp
  have r1: "(if \<exists>e \<in> set (enrollments orphaned_database).
                 enrollments_course_id e = 1 \<and> has_student orphaned_database e
            then (Success,
                  orphaned_database\<lparr>enrollments :=
                       map (\<lambda>e. if enrollments_course_id e = 1 \<and> has_student orphaned_database e
                                then e\<lparr>enrollments_progress := 75\<rparr> else e)
                           (enrollments orphaned_database)\<rparr>)
            else (No_Students_Enrolled, orphaned_database)) =
     (Success,
      orphaned_database
        \<lparr>enrollments :=
           [\<lparr>enrollments_id = 1, enrollments_student_id = 2,
             enrollments_course_id = 1, enrollments_progress = 75\<rparr>,
            \<lparr>enrollments_id = 2, enrollments_student_id = 4,
             enrollments_course_id = 1, enrollments_progress = 0\<rparr>]\<rparr>)"
    by (simp add: has_student_def orphaned_database_def example_users_def)
  have r2: "(if \<exists>e \<in> set (enrollments orphaned_database).
                 enrollments_course_id e = 2 \<and> has_student orphaned_database e
            then (Success,
                  orphaned_database\<lparr>enrollments :=
                       map (\<lambda>e. if enrollments_course_id e = 2 \<and> has_student orphaned_database e
                                then e\<lparr>enrollments_progress := 75\<rparr> else e)
                           (enrollments orphaned_database)\<rparr>)
            else (No_Students_Enrolled, orphaned_database)) =
     (No_Students_Enrolled, orphaned_database)"
    by (simp add: has_student_def orphaned_database_def example_users_def)
  note a = trans [OF update_progress_all_enrolled [OF h1 h2 h3, of 1] r1]
  note b = trans [OF update_progress_all_enrolled [OF h1 h2 h3, of 2] r2]
  show ?thesis
    by (rule conjI [OF h1 conjI [OF h2 conjI [OF h3 conjI [OF a b]]]])
qed

subsection \<open>Deleting a course\<close>

text \<open>
  C9. \<^verbatim>\<open>delete_course\<close> removes from the table of courses the rows whose id is the
  given one and nothing else: the other courses stay, in order, and the tables of
  enrollments and users are the same afterwards, so the enrollments that refer to the
  deleted course stay behind.
\<close>

theorem delete_course_keeps_enrollments:
  "courses (delete_course db course_id) =
     filter (\<lambda>c. courses_id c \<noteq> course_id) (courses db) \<and>
   enrollments (delete_course db course_id) = enrollments db \<and>
   users (delete_course db course_id) = users db"
  by (simp add: delete_course_def)

subsection \<open>Single-target progress update\<close>

text \<open>
  C10. When no enrollment row has the given student and course, \<^verbatim>\<open>update_progress\<close>
  returns the database as it was: it is total, has no error result, and signals nothing
  to its caller.
\<close>

theorem update_progress_no_match:
  assumes "\<forall>e \<in> set (enrollments db).
             \<not> (enrollments_student_id e = student_id \<and> enrollments_course_id e = course_id)"
  shows "update_progress db student_id course_id progress = db"
proof -
  have "map (\<lambda>e. if enrollments_student_id e = student_id \<and>
                    enrollments_course_id e = course_id
                 then e\<lparr>enrollments_progress := progress\<rparr> else e)
            (enrollments db) = enrollments db"
    using assms by (intro map_idI) auto
  then show ?thesis by (simp add: update_progress_def)
qed

theorem update_progress_no_match_witness:
  "list_all (\<lambda>e. \<not> (enrollments_student_id e = 3 \<and> enrollments_course_id e = 1))
            (enrollments example_database) \<and>
   update_progress example_database 3 1 50 = example_database"
proof -
  have h: "\<forall>e \<in> set (enrollments example_database).
             \<not> (enrollments_student_id e = 3 \<and> enrollments_course_id e = 1)"
    by (simp add: example_database_def)
  have l: "list_all (\<lambda>e. \<not> (enrollments_student_id e = 3 \<and> enrollments_course_id e = 1))
                    (enrollments example_database)"
    using h by (simp add: list_all_iff)
  show ?thesis
    by (rule conjI [OF l update_progress_no_match [OF h]])
qed

section \<open>The schema's constraints are invariants\<close>

text \<open>
  The theorems on deleting users and on the bulk update assume ids and usernames free
  of duplicates. These constraints hold in the empty file and every operation of the
  model keeps them, as SQLite does for the stored file.
\<close>

lemma fold_max_ge: "(\<forall>x \<in> set ids. x \<le> fold max ids seq) \<and> seq \<le> fold max ids (seq::int)"
proof (induction ids arbitrary: seq)
  case Nil
  then show ?case by simp
next
  case (Cons a ids)
  have "max a seq \<le> fold max ids (max a seq)"
    using Cons.IH [of "max a seq"] by simp
  then show ?case
    using Cons.IH [of "max a seq"] by auto
qed

lemma next_rowid_fresh: "next_rowid seq ids \<notin> set ids"
proof
  assume "next_rowid seq ids \<in> set ids"
  then have "next_rowid seq ids \<le> fold max ids seq"
    using fold_max_ge [of ids seq] by blast
  then show False by (simp add: next_rowid_def)
qed

lemma schema_ok_empty: "schema_ok empty_database"
  by (simp add: schema_ok_def empty_database_def)

lemma schema_ok_insert_users:
  assumes "schema_ok db" and "insert_users db username password role = Some db'"
  shows "schema_ok db'"
proof -
  let ?i = "next_rowid (users_seq db) (map users_id (users db))"
  have "?i \<notin> set (map users_id (users db))" by (rule next_rowid_fresh)
  then show ?thesis
    using assms
    by (auto simp: schema_ok_def insert_users_def Let_def split: if_splits)
qed

lemma schema_ok_setup_database:
  assumes "schema_ok db" and "setup_database f s db = Inr db'"
  shows "schema_ok db'"
  using assms schema_ok_insert_users
  by (auto simp: setup_database_def Let_def split: option.splits)






lemma map_if_same:
  assumes "\<And>x. h (g x) = h x"
  shows "map h (map (\<lambda>x. if P x then g x else x) xs) = map h xs"
  using assms by (induction xs) auto

lemma schema_ok_update_progress:
  assumes "schema_ok db"
  shows "schema_ok (update_progress db student_id course_id progress)"
proof -
  have "map enrollments_id (enrollments (update_progress db student_id course_id progress)) =
          map enrollments_id (enrollments db)"
    unfolding update_progress_def by (simp add: map_if_same del: map_map)
  then show ?thesis
    using assms by (simp add: schema_ok_def) (simp add: update_progress_def)
qed





lemma schema_ok_example: "schema_ok example_database" "schema_ok orphaned_database"
  by (simp_all add: schema_ok_def example_database_def orphaned_database_def
      example_users_def roles_def)

section \<open>The seeded administrator\<close>

subsection \<open>Every handler keeps the administrator\<close>

lemma strip_roles: "strip ''Student'' = ''Student''" "strip ''Instructor'' = ''Instructor''"
  by (simp_all add: strip_def isspace_def)
























subsection \<open>The example files are files of the program\<close>

lemma strip_names:
  "strip ''alice'' = ''alice''" "strip ''bobby'' = ''bobby''" "strip ''carol'' = ''carol''"
  "strip ''secret2'' = ''secret2''" "strip ''secret3'' = ''secret3''"
  by (simp_all add: strip_def isspace_def)

lemma example_database_is_reachable: "reachable example_kdf (example_database, None)"
proof -
  let ?d0 = "empty_database\<lparr>users := take 1 example_users, users_seq := 1\<rparr>"
  let ?d1 = "empty_database\<lparr>users := take 2 example_users, users_seq := 2\<rparr>"
  let ?d2 = "empty_database\<lparr>users := example_users, users_seq := 3\<rparr>"
  let ?d3 = "example_database\<lparr>enrollments := [], enrollments_seq := 0\<rparr>"
  have "setup_database example_kdf ''s0'' empty_database = Inr ?d0"
    by (simp add: setup_database_def empty_database_def insert_users_def roles_def
        next_rowid_def example_users_def)
  then have r0: "reachable example_kdf (?d0, None)"
    by (rule reachable.first_start)
  have "snd (register example_kdf ''s1'' ?d0 ''alice'' ''secret1'' ''secret1'' ''Student'') = ?d1"
    by (simp add: register_def strip_names strip_examples strip_roles add_user_def
        insert_users_def roles_def next_rowid_def example_users_def empty_database_def)
  moreover have "reachable example_kdf
      (snd (register example_kdf ''s1'' ?d0 ''alice'' ''secret1'' ''secret1'' ''Student''), None)"
    by (rule reachable.register [OF r0]) simp
  ultimately have r1: "reachable example_kdf (?d1, None)" by simp
  have "snd (register example_kdf ''s2'' ?d1 ''bobby'' ''secret2'' ''secret2'' ''Instructor'') = ?d2"
    by (simp add: register_def strip_names strip_examples strip_roles add_user_def
        insert_users_def roles_def next_rowid_def example_users_def empty_database_def)
  moreover have "reachable example_kdf
      (snd (register example_kdf ''s2'' ?d1 ''bobby'' ''secret2'' ''secret2'' ''Instructor''),
       None)"
    by (rule reachable.register [OF r1]) simp
  ultimately have r2: "reachable example_kdf (?d2, None)" by simp
  have "snd (add_course ?d2 ''Logic'' ''HOL'' 3 10) = ?d3"
    by (simp add: add_course_def insert_courses_def next_rowid_def empty_database_def
        example_database_def)
  moreover have "reachable example_kdf (snd (add_course ?d2 ''Logic'' ''HOL'' 3 10), None)"
    by (rule reachable.add_course [OF r2])
  ultimately have r3: "reachable example_kdf (?d3, None)" by simp
  have "snd (enroll_student ?d3 2 1) = example_database"
    by (simp add: enroll_student_def insert_enrollments_def next_rowid_def
        example_database_def)
  moreover have "reachable example_kdf (snd (enroll_student ?d3 2 1), None)"
    by (rule reachable.enroll_student [OF r3])
  ultimately show ?thesis by simp
qed

lemma orphaned_database_is_reachable:
  "reachable example_kdf
     (orphaned_database,
      Some \<lparr>session_id = 1, session_username = ''admin'', session_role = ''Admin''\<rparr>)"
proof -
  let ?cur = "\<lparr>session_id = 1, session_username = ''admin'', session_role = ''Admin''\<rparr>"
  let ?carol = "\<lparr>users_id = 4, users_username = ''carol'',
                 users_password = hashpw example_kdf ''secret3'' ''s3'',
                 users_role = ''Student''\<rparr>"
  let ?d1 = "example_database\<lparr>users := example_users @ [?carol], users_seq := 4\<rparr>"
  let ?d2 = "orphaned_database\<lparr>users := example_users @ [?carol]\<rparr>"
  note r0 = example_database_is_reachable
  have "snd (register example_kdf ''s3'' example_database ''carol'' ''secret3'' ''secret3''
               ''Student'') = ?d1"
    by (simp add: register_def strip_names strip_roles add_user_def insert_users_def
        roles_def next_rowid_def example_users_def example_database_def)
  moreover have "reachable example_kdf
      (snd (register example_kdf ''s3'' example_database ''carol'' ''secret3'' ''secret3''
              ''Student''), None)"
    by (rule reachable.register [OF r0]) simp
  ultimately have r1: "reachable example_kdf (?d1, None)" by simp
  have "snd (enroll_student ?d1 4 1) = ?d2"
    by (simp add: enroll_student_def insert_enrollments_def next_rowid_def
        example_database_def orphaned_database_def)
  moreover have "reachable example_kdf (snd (enroll_student ?d1 4 1), None)"
    by (rule reachable.enroll_student [OF r1])
  ultimately have r2: "reachable example_kdf (?d2, None)" by simp
  have "snd (login example_kdf ?d2 None ''admin'' ''admin123'') = Some ?cur"
    by (simp add: login_def strip_admin authenticate_def get_user_def orphaned_database_def
        example_users_def checkpw_hashpw)
  moreover have "reachable example_kdf
      (?d2, snd (login example_kdf ?d2 None ''admin'' ''admin123''))"
    by (rule reachable.login [OF r2])
  ultimately have r3: "reachable example_kdf (?d2, Some ?cur)" by simp
  have "snd (AdminDashboard_delete_user ?d2 ?cur (Some (4, ''carol'', ''Student'')) True) =
          orphaned_database"
    by (simp add: AdminDashboard_delete_user_def delete_user_def orphaned_database_def
        example_users_def)
  moreover have "reachable example_kdf
      (snd (AdminDashboard_delete_user ?d2 ?cur (Some (4, ''carol'', ''Student'')) True),
       Some ?cur)"
    by (rule reachable.delete_user [OF r3])
       (simp_all add: get_all_users_def orphaned_database_def example_users_def)
  ultimately show ?thesis by simp
qed

subsection \<open>Seeding at the start\<close>



end
